theory Spec2Isabelle
  imports Main "HOL-Library.Word"
begin

section \<open>The stub container manager of kubemark\<close>

text \<open>
  Source: \<^verbatim>\<open>pkg/kubemark/cm/container_manager_stub.go\<close>. The stub answers the
  kubelet's questions about node resources without a real allocator: the only
  configuration it keeps is the operator-supplied GPU count and one flag.
\<close>

subsection \<open>Library values the stub builds on\<close>

text \<open>
  \<^verbatim>\<open>resource.Format\<close> is a Go string type; its three constants are the strings
  below and the zero value is the empty string.
\<close>

type_synonym Format = string

definition DecimalExponent :: Format where
  "DecimalExponent = ''DecimalExponent''"

definition BinarySI :: Format where
  "BinarySI = ''BinarySI''"

definition DecimalSI :: Format where
  "DecimalSI = ''DecimalSI''"

text \<open>
  A \<^verbatim>\<open>resource.Quantity\<close> is kept by the number it denotes and its format. The
  library's two internal representations of the amount (a scaled 64-bit integer
  and an arbitrary-precision decimal) and its cached string are not distinguished.
\<close>

record Quantity =
  val :: int
  Format :: Format

text \<open>The zero value \<^verbatim>\<open>Quantity{}\<close>, which a failed parse returns beside its error.\<close>

definition zeroQuantity :: Quantity where
  "zeroQuantity = \<lparr>val = 0, Format = []\<rparr>"

text \<open>\<^verbatim>\<open>resource.NewQuantity(value, format)\<close>.\<close>

definition NewQuantity :: "64 word \<Rightarrow> Format \<Rightarrow> Quantity" where
  "NewQuantity v f = \<lparr>val = sint v, Format = f\<rparr>"

text \<open>\<^verbatim>\<open>v1.ResourceList\<close> is \<^verbatim>\<open>map[ResourceName]Quantity\<close>; resource names are strings.\<close>

type_synonym ResourceName = string
type_synonym ResourceList = "ResourceName \<rightharpoonup> Quantity"

definition ResourceCPU :: ResourceName where
  "ResourceCPU = ''cpu''"

definition ResourceMemory :: ResourceName where
  "ResourceMemory = ''memory''"

definition ResourceEphemeralStorage :: ResourceName where
  "ResourceEphemeralStorage = ''ephemeral-storage''"

datatype error = ErrFormatWrong | ErrNumeric | ErrSuffix

subsection \<open>\<^verbatim>\<open>strconv.Itoa\<close>\<close>

text \<open>
  The decimal text of an integer: a minus sign for a negative number, then the
  digits of its magnitude, most significant first, with no leading zero.
\<close>

definition digitChar :: "nat \<Rightarrow> char" where
  "digitChar d = char_of (48 + d)"

fun formatBits :: "nat \<Rightarrow> string" where
  "formatBits n =
     (if n < 10 then [digitChar n]
      else formatBits (n div 10) @ [digitChar (n mod 10)])"

declare formatBits.simps [simp del]

definition Itoa :: "int \<Rightarrow> string" where
  "Itoa i = (if i < 0 then CHR ''-'' # formatBits (nat (- i)) else formatBits (nat i))"

subsection \<open>\<^verbatim>\<open>resource.ParseQuantity\<close>\<close>

text \<open>
  \<^verbatim>\<open>ParseQuantity\<close> lives in \<^verbatim>\<open>k8s.io/apimachinery\<close>, outside this repository. The
  stub only ever hands it the output of \<^verbatim>\<open>strconv.Itoa\<close>, so it is modelled on the
  strings of the shape sign, digits: an optional leading \<^verbatim>\<open>+\<close> or \<^verbatim>\<open>-\<close>, then
  decimal digits, denoting that integer in format \<^verbatim>\<open>DecimalSI\<close>. The empty string
  is \<^verbatim>\<open>ErrFormatWrong\<close>. Whatever follows the digits is the suffix; fractions,
  exponents and the SI suffixes are beyond this model and every non-empty
  remainder is reported as \<^verbatim>\<open>ErrSuffix\<close>.
\<close>

definition isDigit :: "char \<Rightarrow> bool" where
  "isDigit c \<longleftrightarrow> 48 \<le> (of_char c :: nat) \<and> (of_char c :: nat) \<le> 57"

definition digitVal :: "char \<Rightarrow> nat" where
  "digitVal c = of_char c - 48"

definition parseDigits :: "string \<Rightarrow> nat" where
  "parseDigits ds = foldl (\<lambda>a c. 10 * a + digitVal c) 0 ds"

definition ParseQuantity :: "string \<Rightarrow> error + Quantity" where
  "ParseQuantity str =
     (if str = [] then Inl ErrFormatWrong
      else
        let positive = (hd str \<noteq> CHR ''-'');
            body = (if hd str = CHR ''-'' \<or> hd str = CHR ''+'' then tl str else str);
            num = takeWhile isDigit body;
            suf = dropWhile isDigit body
        in if suf \<noteq> [] then Inl ErrSuffix
           else Inr \<lparr>val = (if positive then int (parseDigits num) else - int (parseDigits num)),
                     Format = DecimalSI\<rparr>)"

subsection \<open>The manager\<close>

text \<open>
  \<^verbatim>\<open>GpuNum\<close> is a Go \<^verbatim>\<open>int\<close>; the binary is built for linux/amd64, where that is a
  64-bit two's-complement integer.
\<close>

record containerManagerStub =
  shouldResetExtendedResourceCapacity :: bool
  GpuNum :: "64 word"

text \<open>
  The two constructors. Their Go result type is the \<^verbatim>\<open>ContainerManager\<close> interface
  alone: there is no error result and no panic in either body, so each is a
  total function into managers. A field the composite literal leaves out takes
  its zero value.
\<close>

definition NewStubContainerManager :: "64 word \<Rightarrow> containerManagerStub" where
  "NewStubContainerManager gpuNum =
     \<lparr>shouldResetExtendedResourceCapacity = False, GpuNum = gpuNum\<rparr>"

definition NewStubContainerManagerWithExtendedResource :: "bool \<Rightarrow> containerManagerStub" where
  "NewStubContainerManagerWithExtendedResource b =
     \<lparr>shouldResetExtendedResourceCapacity = b, GpuNum = 0\<rparr>"

text \<open>
  Every method has a pointer receiver and could assign to the manager's fields.
  A method is therefore a function from the manager to its result paired with
  the manager as the body leaves it.
\<close>

definition GetCapacity :: "containerManagerStub \<Rightarrow> ResourceList \<times> containerManagerStub" where
  "GetCapacity cm =
     (let c = [ResourceEphemeralStorage \<mapsto> NewQuantity 0 BinarySI]
      in (c, cm))"

text \<open>The error of \<^verbatim>\<open>ParseQuantity\<close> is dropped; on an error its first result is \<^verbatim>\<open>Quantity{}\<close>.\<close>

definition GetDevicePluginResourceCapacity ::
  "containerManagerStub \<Rightarrow> (ResourceList \<times> ResourceList \<times> string list) \<times> containerManagerStub" where
  "GetDevicePluginResourceCapacity cm =
     (let gpuNum = (case ParseQuantity (Itoa (sint (GpuNum cm))) of
                      Inl _ \<Rightarrow> zeroQuantity
                    | Inr q \<Rightarrow> q);
          devicesCapacity = [''nvidia.com/gpu'' \<mapsto> gpuNum];
          devicesAllocatable = [''nvidia.com/gpu'' \<mapsto> gpuNum]
      in ((devicesCapacity, devicesAllocatable, []), cm))"

definition ShouldResetExtendedResourceCapacity :: "containerManagerStub \<Rightarrow> bool \<times> containerManagerStub" where
  "ShouldResetExtendedResourceCapacity cm = (shouldResetExtendedResourceCapacity cm, cm)"

text \<open>
  \<^verbatim>\<open>Start\<close> ignores its five arguments. Its one effect is a log line at
  verbosity 2, written when the configured verbosity \<open>v\<close> is at least 2. A Go
  \<^verbatim>\<open>error\<close> is an option: \<open>None\<close> is \<^verbatim>\<open>nil\<close>.
\<close>

definition Start ::
  "nat \<Rightarrow> containerManagerStub \<Rightarrow> 'node \<Rightarrow> 'activePods \<Rightarrow> 'sourcesReady \<Rightarrow> 'podStatusProvider \<Rightarrow> 'runtimeService
     \<Rightarrow> (string list \<times> error option) \<times> containerManagerStub" where
  "Start v cm node activePods sourcesReady podStatusProvider runtimeService =
     ((if 2 \<le> v then [''Starting stub container manager''] else [], None), cm)"

definition UpdateQOSCgroups :: "containerManagerStub \<Rightarrow> error option \<times> containerManagerStub" where
  "UpdateQOSCgroups cm = (None, cm)"

text \<open>
  \<^verbatim>\<open>kubecontainer.RunContainerOptions\<close> is declared in the kubelet's container
  package, outside this file: the environment variables and annotations (name
  and value each), the mounts, devices and port mappings (their element types
  are left open here), the pod's container directory, the read-only flag, the
  host name and the host user namespace flag. The composite literal
  \<^verbatim>\<open>RunContainerOptions{}\<close> sets every field to its zero value.
\<close>

record ('mount, 'device, 'port) RunContainerOptions =
  Envs :: "(string \<times> string) list"
  Mounts :: "'mount list"
  Devices :: "'device list"
  Annotations :: "(string \<times> string) list"
  PortMappings :: "'port list"
  PodContainerDir :: string
  ReadOnly :: bool
  Hostname :: string
  EnableHostUserNamespace :: bool

definition emptyRunContainerOptions :: "('mount, 'device, 'port) RunContainerOptions" where
  "emptyRunContainerOptions =
     \<lparr>Envs = [], Mounts = [], Devices = [], Annotations = [], PortMappings = [],
      PodContainerDir = [], ReadOnly = False, Hostname = [], EnableHostUserNamespace = False\<rparr>"

definition GetResources ::
  "containerManagerStub \<Rightarrow> 'pod \<Rightarrow> 'container
     \<Rightarrow> (('mount, 'device, 'port) RunContainerOptions \<times> error option) \<times> containerManagerStub" where
  "GetResources cm pod container = ((emptyRunContainerOptions, None), cm)"

definition UpdatePluginResources ::
  "containerManagerStub \<Rightarrow> 'nodeInfo \<Rightarrow> 'attrs \<Rightarrow> error option \<times> containerManagerStub" where
  "UpdatePluginResources cm nodeInfo attrs = (None, cm)"

section \<open>The Admission Ledger\<close>

text \<open>
  Modelled from the spec: the Admission Ledger (its records, \<^verbatim>\<open>TryAdmit\<close>,
  \<^verbatim>\<open>Release\<close> and \<^verbatim>\<open>Snapshot\<close>) is described in sections 3 and 4.2 of
  the specification; its implementation is not among the repository's source
  files. The definitions below follow the specification's words: one ledger per agent, holding the
  agent's allocatable amounts and the live admission records; amounts are
  natural numbers (CPU in millis, memory in bytes, GPU in devices); the ledger is
  append and remove only.
\<close>

datatype Dimension = CPU | Memory | GPU

text \<open>The tracked dimensions, in the order the specification lists them.\<close>

definition dimensions :: "Dimension list" where
  "dimensions = [CPU, Memory, GPU]"

fun rank :: "Dimension \<Rightarrow> nat" where
  "rank CPU = 0"
| "rank Memory = 1"
| "rank GPU = 2"

record AdmissionRecord =
  workloadID :: string
  requestedCPU :: nat
  requestedMemory :: nat
  requestedGPU :: nat
  admittedAt :: nat

record PlacementRequest =
  reqWorkloadID :: string
  reqCPU :: nat
  reqMemory :: nat
  reqGPU :: nat

record Ledger =
  allocatableCPU :: nat
  allocatableMemory :: nat
  allocatableGPU :: nat
  records :: "AdmissionRecord list"

datatype AdmitResult = Admitted | Rejected Dimension

definition newLedger :: "nat \<Rightarrow> nat \<Rightarrow> nat \<Rightarrow> Ledger" where
  "newLedger c m g =
     \<lparr>allocatableCPU = c, allocatableMemory = m, allocatableGPU = g, records = []\<rparr>"

fun allocatable :: "Dimension \<Rightarrow> Ledger \<Rightarrow> nat" where
  "allocatable CPU l = allocatableCPU l"
| "allocatable Memory l = allocatableMemory l"
| "allocatable GPU l = allocatableGPU l"

fun requested :: "Dimension \<Rightarrow> AdmissionRecord \<Rightarrow> nat" where
  "requested CPU r = requestedCPU r"
| "requested Memory r = requestedMemory r"
| "requested GPU r = requestedGPU r"

fun asked :: "Dimension \<Rightarrow> PlacementRequest \<Rightarrow> nat" where
  "asked CPU q = reqCPU q"
| "asked Memory q = reqMemory q"
| "asked GPU q = reqGPU q"

text \<open>The sum of the requested amounts over the live records, for one dimension.\<close>

definition used :: "Dimension \<Rightarrow> Ledger \<Rightarrow> nat" where
  "used d l = sum_list (map (requested d) (records l))"

text \<open>\<^verbatim>\<open>Snapshot\<close>: used resources by dimension, read-only.\<close>

definition Snapshot :: "Ledger \<Rightarrow> nat \<times> nat \<times> nat" where
  "Snapshot l = (used CPU l, used Memory l, used GPU l)"

text \<open>A dimension is exhausted by a request when the remaining headroom does not cover it.\<close>

definition exhausted :: "Ledger \<Rightarrow> PlacementRequest \<Rightarrow> Dimension \<Rightarrow> bool" where
  "exhausted l q d \<longleftrightarrow> allocatable d l < used d l + asked d q"

definition mkRecord :: "PlacementRequest \<Rightarrow> nat \<Rightarrow> AdmissionRecord" where
  "mkRecord q now =
     \<lparr>workloadID = reqWorkloadID q, requestedCPU = reqCPU q, requestedMemory = reqMemory q,
      requestedGPU = reqGPU q, admittedAt = now\<rparr>"

text \<open>
  \<^verbatim>\<open>TryAdmit\<close>: check every tracked dimension against the live records; admit and
  record when all have room, otherwise reject with the first exhausted dimension
  and leave the ledger as it was. The second argument is the time of admission.
\<close>

definition TryAdmit :: "Ledger \<Rightarrow> PlacementRequest \<Rightarrow> nat \<Rightarrow> AdmitResult \<times> Ledger" where
  "TryAdmit l q now =
     (case find (exhausted l q) dimensions of
        Some d \<Rightarrow> (Rejected d, l)
      | None \<Rightarrow> (Admitted, l\<lparr>records := records l @ [mkRecord q now]\<rparr>))"

text \<open>\<^verbatim>\<open>Release\<close>: remove the records of the workload; it has no result and no error.\<close>

definition Release :: "Ledger \<Rightarrow> string \<Rightarrow> Ledger" where
  "Release l w = l\<lparr>records := filter (\<lambda>r. workloadID r \<noteq> w) (records l)\<rparr>"

text \<open>A sequence of operations on one ledger, and the ledger after each of them.\<close>

datatype LedgerOp = DoTryAdmit PlacementRequest nat | DoRelease string

fun step :: "Ledger \<Rightarrow> LedgerOp \<Rightarrow> Ledger" where
  "step l (DoTryAdmit q now) = snd (TryAdmit l q now)"
| "step l (DoRelease w) = Release l w"

fun trace :: "Ledger \<Rightarrow> LedgerOp list \<Rightarrow> Ledger list" where
  "trace l [] = [l]"
| "trace l (x # xs) = l # trace (step l x) xs"

section \<open>The Status Sync Loop\<close>










section \<open>The Heartbeat Loop\<close>






section \<open>Properties of the stub container manager\<close>

subsection \<open>Formatting and parsing the GPU count\<close>

lemma isDigit_digitChar: "d < 10 \<Longrightarrow> isDigit (digitChar d)"
  by (simp add: isDigit_def digitChar_def)

lemma digitVal_digitChar: "d < 10 \<Longrightarrow> digitVal (digitChar d) = d"
  by (simp add: digitVal_def digitChar_def)

lemma formatBits_nonempty: "formatBits n \<noteq> []"
  by (subst formatBits.simps) simp

lemma formatBits_digits: "\<forall>c \<in> set (formatBits n). isDigit c"
proof (induction n rule: formatBits.induct)
  case (1 n)
  show ?case
  proof (cases "n < 10")
    case True
    then show ?thesis by (subst formatBits.simps) (simp add: isDigit_digitChar)
  next
    case False
    with 1 show ?thesis by (subst formatBits.simps) (simp add: isDigit_digitChar)
  qed
qed

lemma parseDigits_snoc: "parseDigits (ds @ [c]) = 10 * parseDigits ds + digitVal c"
  by (simp add: parseDigits_def)

lemma parseDigits_formatBits: "parseDigits (formatBits n) = n"
proof (induction n rule: formatBits.induct)
  case (1 n)
  show ?case
  proof (cases "n < 10")
    case True
    then show ?thesis by (subst formatBits.simps) (simp add: parseDigits_def digitVal_digitChar)
  next
    case False
    with 1 have "parseDigits (formatBits (n div 10)) = n div 10" by simp
    with False show ?thesis
      by (subst formatBits.simps) (simp add: parseDigits_snoc digitVal_digitChar)
  qed
qed

lemma hd_formatBits_digit: "isDigit (hd (formatBits n))"
  using formatBits_digits [of n] formatBits_nonempty [of n]
  by (cases "formatBits n") auto

lemma hd_formatBits_not_sign:
  "hd (formatBits n) \<noteq> CHR ''-''" "hd (formatBits n) \<noteq> CHR ''+''"
proof -
  have d: "isDigit (hd (formatBits n))" by (rule hd_formatBits_digit)
  show "hd (formatBits n) \<noteq> CHR ''-''"
  proof
    assume "hd (formatBits n) = CHR ''-''"
    with d have "isDigit CHR ''-''" by simp
    then show False by (simp add: isDigit_def)
  qed
  show "hd (formatBits n) \<noteq> CHR ''+''"
  proof
    assume "hd (formatBits n) = CHR ''+''"
    with d have "isDigit CHR ''+''" by simp
    then show False by (simp add: isDigit_def)
  qed
qed

lemma takeWhile_formatBits: "takeWhile isDigit (formatBits n) = formatBits n"
  using formatBits_digits [of n] by simp

lemma ParseQuantity_digits:
  "ParseQuantity (formatBits n) = Inr \<lparr>val = int n, Format = DecimalSI\<rparr>"
  by (simp add: ParseQuantity_def Let_def takeWhile_formatBits parseDigits_formatBits
      formatBits_nonempty hd_formatBits_not_sign formatBits_digits)

lemma ParseQuantity_minus_digits:
  "ParseQuantity (CHR ''-'' # formatBits n) = Inr \<lparr>val = - int n, Format = DecimalSI\<rparr>"
  by (simp add: ParseQuantity_def Let_def takeWhile_formatBits parseDigits_formatBits
      formatBits_digits)

text \<open>Parsing the decimal text of an integer gives that integer back, in format DecimalSI.\<close>

lemma ParseQuantity_Itoa: "ParseQuantity (Itoa i) = Inr \<lparr>val = i, Format = DecimalSI\<rparr>"
proof (cases "i < 0")
  case True
  then show ?thesis by (simp add: Itoa_def ParseQuantity_minus_digits)
next
  case False
  then show ?thesis by (simp add: Itoa_def ParseQuantity_digits)
qed

lemma GetDevicePluginResourceCapacity_eq:
  "GetDevicePluginResourceCapacity cm =
     (([''nvidia.com/gpu'' \<mapsto> \<lparr>val = sint (GpuNum cm), Format = DecimalSI\<rparr>],
       [''nvidia.com/gpu'' \<mapsto> \<lparr>val = sint (GpuNum cm), Format = DecimalSI\<rparr>], []), cm)"
  by (simp add: GetDevicePluginResourceCapacity_def ParseQuantity_Itoa Let_def)

subsection \<open>Device capacity\<close>

text \<open>
  Claim C1. For every manager built by \<^verbatim>\<open>NewStubContainerManager(gpuNum)\<close>,
  \<^verbatim>\<open>GetDevicePluginResourceCapacity\<close> returns a capacity list and an allocatable
  list that are equal; each has the single key \<^verbatim>\<open>nvidia.com/gpu\<close>, mapped to the
  quantity \<open>gpuNum\<close>; the third result, the removed resources, is empty. The
  quantity comes from the constructor's argument alone.
\<close>

theorem C1_device_capacity:
  "(case fst (GetDevicePluginResourceCapacity (NewStubContainerManager gpuNum)) of
      (devicesCapacity, devicesAllocatable, removed) \<Rightarrow>
        devicesCapacity = devicesAllocatable
        \<and> devicesCapacity = [''nvidia.com/gpu'' \<mapsto> \<lparr>val = sint gpuNum, Format = DecimalSI\<rparr>]
        \<and> dom devicesCapacity = {''nvidia.com/gpu''}
        \<and> dom devicesAllocatable = {''nvidia.com/gpu''}
        \<and> removed = [])"
  by (simp add: GetDevicePluginResourceCapacity_eq NewStubContainerManager_def)

subsection \<open>No validation of the GPU count\<close>

text \<open>
  Claim C2, as amended. \<^verbatim>\<open>NewStubContainerManager\<close> validates nothing and cannot
  fail: for every \<open>gpuNum\<close>, negative or not, it returns the manager whose
  \<^verbatim>\<open>GpuNum\<close> is exactly \<open>gpuNum\<close>, with the reset flag false.
  \<^verbatim>\<open>GetDevicePluginResourceCapacity\<close> of that manager reports the quantity
  \<open>gpuNum\<close> under \<^verbatim>\<open>nvidia.com/gpu\<close> as capacity and as allocatable, and leaves
  the manager as it was; the reported quantity is negative, in either list,
  exactly when \<open>gpuNum\<close> is.
\<close>

theorem C2_no_validation:
  "GpuNum (NewStubContainerManager gpuNum) = gpuNum
   \<and> shouldResetExtendedResourceCapacity (NewStubContainerManager gpuNum) = False
   \<and> GetDevicePluginResourceCapacity (NewStubContainerManager gpuNum) =
       (([''nvidia.com/gpu'' \<mapsto> \<lparr>val = sint gpuNum, Format = DecimalSI\<rparr>],
         [''nvidia.com/gpu'' \<mapsto> \<lparr>val = sint gpuNum, Format = DecimalSI\<rparr>], []),
        NewStubContainerManager gpuNum)
   \<and> ((\<exists>q. fst (fst (GetDevicePluginResourceCapacity (NewStubContainerManager gpuNum)))
                 ''nvidia.com/gpu'' = Some q \<and> val q < 0) \<longleftrightarrow> sint gpuNum < 0)
   \<and> ((\<exists>q. fst (snd (fst (GetDevicePluginResourceCapacity (NewStubContainerManager gpuNum))))
                 ''nvidia.com/gpu'' = Some q \<and> val q < 0) \<longleftrightarrow> sint gpuNum < 0)"
  by (simp add: GetDevicePluginResourceCapacity_eq NewStubContainerManager_def)

text \<open>The amended claim at \<open>gpuNum = -5\<close> and at \<open>gpuNum = 20\<close>.\<close>

theorem C2_no_validation_witness:
  "GpuNum (NewStubContainerManager (- 5)) = - 5
   \<and> GetDevicePluginResourceCapacity (NewStubContainerManager (- 5)) =
       (([''nvidia.com/gpu'' \<mapsto> \<lparr>val = - 5, Format = DecimalSI\<rparr>],
         [''nvidia.com/gpu'' \<mapsto> \<lparr>val = - 5, Format = DecimalSI\<rparr>], []),
        NewStubContainerManager (- 5))
   \<and> GpuNum (NewStubContainerManager 20) = 20
   \<and> GetDevicePluginResourceCapacity (NewStubContainerManager 20) =
       (([''nvidia.com/gpu'' \<mapsto> \<lparr>val = 20, Format = DecimalSI\<rparr>],
         [''nvidia.com/gpu'' \<mapsto> \<lparr>val = 20, Format = DecimalSI\<rparr>], []),
        NewStubContainerManager 20)"
  using C2_no_validation [of "- 5"] C2_no_validation [of 20] by simp

text \<open>
  Claim C2 as stated asks that construction with a negative \<open>gpuNum\<close> report an
  error instead of producing a manager. At \<open>gpuNum = -1\<close> the constructor
  produces the manager with \<^verbatim>\<open>GpuNum\<close> -1, and the node advertises -1 GPUs as
  both capacity and allocatable.
\<close>

theorem C2_negative_gpu_counterexample:
  "NewStubContainerManager (- 1) = \<lparr>shouldResetExtendedResourceCapacity = False, GpuNum = - 1\<rparr>
   \<and> sint (GpuNum (NewStubContainerManager (- 1))) < 0
   \<and> fst (GetDevicePluginResourceCapacity (NewStubContainerManager (- 1))) =
       ([''nvidia.com/gpu'' \<mapsto> \<lparr>val = - 1, Format = DecimalSI\<rparr>],
        [''nvidia.com/gpu'' \<mapsto> \<lparr>val = - 1, Format = DecimalSI\<rparr>], [])"
  by (simp add: GetDevicePluginResourceCapacity_eq NewStubContainerManager_def)

subsection \<open>Accessors leave the manager as it is\<close>

text \<open>
  Claim C8. The configuration is read-only after construction: each of the
  accessors \<^verbatim>\<open>GetDevicePluginResourceCapacity\<close>, \<^verbatim>\<open>GetCapacity\<close> and
  \<^verbatim>\<open>ShouldResetExtendedResourceCapacity\<close> returns the manager with both fields
  (\<^verbatim>\<open>GpuNum\<close>, \<^verbatim>\<open>shouldResetExtendedResourceCapacity\<close>) as they were, so a
  second call of the same accessor returns the same result as the first.
\<close>

theorem C8_accessors_read_only:
  "snd (GetDevicePluginResourceCapacity cm) = cm
   \<and> snd (GetCapacity cm) = cm
   \<and> snd (ShouldResetExtendedResourceCapacity cm) = cm
   \<and> GpuNum (snd (GetDevicePluginResourceCapacity cm)) = GpuNum cm
   \<and> shouldResetExtendedResourceCapacity (snd (GetDevicePluginResourceCapacity cm)) =
       shouldResetExtendedResourceCapacity cm
   \<and> fst (GetDevicePluginResourceCapacity (snd (GetDevicePluginResourceCapacity cm))) =
       fst (GetDevicePluginResourceCapacity cm)
   \<and> fst (GetCapacity (snd (GetCapacity cm))) = fst (GetCapacity cm)
   \<and> fst (ShouldResetExtendedResourceCapacity (snd (ShouldResetExtendedResourceCapacity cm))) =
       fst (ShouldResetExtendedResourceCapacity cm)"
  by (simp add: GetDevicePluginResourceCapacity_def GetCapacity_def
      ShouldResetExtendedResourceCapacity_def Let_def)

subsection \<open>Node capacity\<close>

text \<open>
  Claim C9. Whatever the manager's configuration, \<^verbatim>\<open>GetCapacity\<close> returns a
  resource list with exactly one entry, \<^verbatim>\<open>ephemeral-storage\<close> with quantity 0;
  there is no entry for CPU, memory or GPU.
\<close>

theorem C9_capacity_ephemeral_only:
  "fst (GetCapacity cm) = [''ephemeral-storage'' \<mapsto> \<lparr>val = 0, Format = BinarySI\<rparr>]
   \<and> dom (fst (GetCapacity cm)) = {''ephemeral-storage''}
   \<and> fst (GetCapacity cm) ResourceCPU = None
   \<and> fst (GetCapacity cm) ResourceMemory = None
   \<and> fst (GetCapacity cm) ''nvidia.com/gpu'' = None"
  by (simp add: GetCapacity_def NewQuantity_def ResourceEphemeralStorage_def ResourceCPU_def
      ResourceMemory_def)

subsection \<open>Operations that return an error\<close>

text \<open>
  Claim C10. The stub never fails: for every manager and all arguments,
  \<^verbatim>\<open>Start\<close>, \<^verbatim>\<open>UpdateQOSCgroups\<close>, \<^verbatim>\<open>UpdatePluginResources\<close> and
  \<^verbatim>\<open>GetResources\<close> return a nil error, and \<^verbatim>\<open>GetResources\<close> returns the empty
  \<^verbatim>\<open>RunContainerOptions\<close> for every pod and container.
\<close>

theorem C10_never_fails:
  "snd (fst (Start v cm node activePods sourcesReady podStatusProvider runtimeService)) = None
   \<and> fst (UpdateQOSCgroups cm) = None
   \<and> fst (UpdatePluginResources cm nodeInfo attrs) = None
   \<and> fst (GetResources cm pod container) = (emptyRunContainerOptions, None)"
  by (simp add: Start_def UpdateQOSCgroups_def UpdatePluginResources_def GetResources_def)

section \<open>Properties of the Admission Ledger\<close>

subsection \<open>How the operations change usage\<close>

lemma set_dimensions: "set dimensions = UNIV"
proof -
  have "d \<in> set dimensions" for d by (cases d) (simp_all add: dimensions_def)
  then show ?thesis by auto
qed

lemma requested_mkRecord: "requested d (mkRecord q now) = asked d q"
  by (cases d) (simp_all add: mkRecord_def)

lemma used_append:
  "used d (l\<lparr>records := records l @ [r]\<rparr>) = used d l + requested d r"
  by (simp add: used_def)

lemma sum_list_filter_le:
  "sum_list (map f (filter P xs)) \<le> sum_list (map (f :: 'a \<Rightarrow> nat) xs)"
  by (induction xs) auto

lemma used_Release_le: "used d (Release l w) \<le> used d l"
  by (simp add: used_def Release_def sum_list_filter_le)

lemma allocatable_records_update: "allocatable d (l\<lparr>records := rs\<rparr>) = allocatable d l"
  by (cases d) simp_all

lemma allocatable_Release: "allocatable d (Release l w) = allocatable d l"
  by (simp add: Release_def allocatable_records_update)

lemma TryAdmit_Rejected:
  "find (exhausted l q) dimensions = Some d \<Longrightarrow> TryAdmit l q now = (Rejected d, l)"
  by (simp add: TryAdmit_def)

lemma TryAdmit_Admitted:
  "find (exhausted l q) dimensions = None \<Longrightarrow>
     TryAdmit l q now = (Admitted, l\<lparr>records := records l @ [mkRecord q now]\<rparr>)"
  by (simp add: TryAdmit_def)

lemma find_exhausted_None:
  "find (exhausted l q) dimensions = None \<longleftrightarrow> (\<forall>d. used d l + asked d q \<le> allocatable d l)"
  by (simp add: find_None_iff set_dimensions exhausted_def not_less)

lemma find_exhausted_Some:
  "find (exhausted l q) dimensions = Some d \<longleftrightarrow>
     exhausted l q d \<and> (\<forall>d'. rank d' < rank d \<longrightarrow> \<not> exhausted l q d')"
proof (cases d)
  case CPU
  then show ?thesis by (auto simp: dimensions_def)
next
  case Memory
  have "rank d' < 1 \<longleftrightarrow> d' = CPU" for d' by (cases d') simp_all
  with Memory show ?thesis by (auto simp: dimensions_def)
next
  case GPU
  have "rank d' < 2 \<longleftrightarrow> d' = CPU \<or> d' = Memory" for d' by (cases d') simp_all
  with GPU show ?thesis by (auto simp: dimensions_def)
qed

lemma allocatable_TryAdmit: "allocatable d (snd (TryAdmit l q now)) = allocatable d l"
  by (cases "find (exhausted l q) dimensions")
     (simp_all add: TryAdmit_def allocatable_records_update)

lemma allocatable_step: "allocatable d (step l x) = allocatable d l"
  by (cases x) (simp_all add: allocatable_TryAdmit allocatable_Release)

lemma used_TryAdmit_le:
  assumes "used d l \<le> allocatable d l"
  shows "used d (snd (TryAdmit l q now)) \<le> allocatable d l"
proof (cases "find (exhausted l q) dimensions")
  case None
  then have "used d l + asked d q \<le> allocatable d l"
    by (simp add: find_exhausted_None)
  with None show ?thesis
    by (simp add: TryAdmit_Admitted used_append requested_mkRecord)
next
  case (Some e)
  with assms show ?thesis by (simp add: TryAdmit_Rejected)
qed

lemma used_step_le:
  assumes "used d l \<le> allocatable d l"
  shows "used d (step l x) \<le> allocatable d l"
proof (cases x)
  case (DoTryAdmit q now)
  with assms show ?thesis by (simp add: used_TryAdmit_le)
next
  case (DoRelease w)
  have "used d (Release l w) \<le> used d l" by (rule used_Release_le)
  with assms DoRelease show ?thesis by simp
qed

lemma trace_within:
  assumes "\<forall>d. used d l0 \<le> allocatable d l0"
  shows "\<forall>l \<in> set (trace l0 ops). \<forall>d. used d l \<le> allocatable d l \<and> allocatable d l = allocatable d l0"
  using assms
proof (induction ops arbitrary: l0)
  case Nil
  then show ?case by simp
next
  case (Cons x xs)
  have "\<forall>d. used d (step l0 x) \<le> allocatable d (step l0 x)"
    using Cons.prems by (simp add: used_step_le allocatable_step)
  from Cons.IH [OF this]
  have ih: "\<forall>l \<in> set (trace (step l0 x) xs).
      \<forall>d. used d l \<le> allocatable d l \<and> allocatable d l = allocatable d (step l0 x)" .
  show ?case
  proof (intro ballI allI)
    fix l d
    assume "l \<in> set (trace l0 (x # xs))"
    then consider "l = l0" | "l \<in> set (trace (step l0 x) xs)" by auto
    then show "used d l \<le> allocatable d l \<and> allocatable d l = allocatable d l0"
    proof cases
      case 1
      with Cons.prems show ?thesis by simp
    next
      case 2
      with ih have "used d l \<le> allocatable d l" "allocatable d l = allocatable d (step l0 x)"
        by blast+
      then show ?thesis by (simp add: allocatable_step)
    qed
  qed
qed

lemma used_newLedger: "used d (newLedger c m g) = 0"
  by (simp add: used_def newLedger_def)

subsection \<open>Usage never exceeds allocatable\<close>

text \<open>
  Claim C3. Start from an agent's empty ledger with allocatable amounts \<open>c\<close>,
  \<open>m\<close>, \<open>g\<close> and run any sequence of \<^verbatim>\<open>TryAdmit\<close> and \<^verbatim>\<open>Release\<close>
  operations. In the ledger at every point of the sequence, the sum of the
  requested amounts over the live records is at most the allocatable amount, for
  CPU, memory and GPU alike. A request that would push some dimension over its
  allocatable amount is rejected and the ledger stays exactly as it was: nothing
  of the request is admitted.
\<close>

theorem C3_ledger_bound:
  "(\<forall>l \<in> set (trace (newLedger c m g) ops).
      used CPU l \<le> c \<and> used Memory l \<le> m \<and> used GPU l \<le> g
      \<and> (\<forall>d. used d l \<le> allocatable d l))
   \<and> (\<forall>l q now. (\<exists>d. allocatable d l < used d l + asked d q) \<longrightarrow>
         (\<exists>d. TryAdmit l q now = (Rejected d, l)))"
proof (intro conjI ballI allI impI)
  fix l assume l: "l \<in> set (trace (newLedger c m g) ops)"
  have "\<forall>d. used d (newLedger c m g) \<le> allocatable d (newLedger c m g)"
    by (simp add: used_newLedger)
  from trace_within [OF this, of ops] l
  have *: "used d l \<le> allocatable d l" "allocatable d l = allocatable d (newLedger c m g)" for d
    by blast+
  from * [of CPU] show "used CPU l \<le> c" by (simp add: newLedger_def)
  from * [of Memory] show "used Memory l \<le> m" by (simp add: newLedger_def)
  from * [of GPU] show "used GPU l \<le> g" by (simp add: newLedger_def)
  fix d show "used d l \<le> allocatable d l" by (rule *)
next
  fix l q now
  assume "\<exists>d. allocatable d l < used d l + asked d q"
  then have "find (exhausted l q) dimensions \<noteq> None"
    by (auto simp: find_exhausted_None not_le)
  then obtain d where "find (exhausted l q) dimensions = Some d" by auto
  then show "\<exists>d. TryAdmit l q now = (Rejected d, l)"
    by (auto simp: TryAdmit_Rejected)
qed

text \<open>
  The bound on a run that admits, rejects, releases and admits again, and the
  rejection of a request that asks for more memory than the agent has.
\<close>

theorem C3_ledger_bound_witness:
  "(let l = last (trace (newLedger 1000 4096 1)
               [DoTryAdmit \<lparr>reqWorkloadID = ''a'', reqCPU = 500, reqMemory = 1024, reqGPU = 1\<rparr> 0,
                DoTryAdmit \<lparr>reqWorkloadID = ''b'', reqCPU = 600, reqMemory = 1024, reqGPU = 0\<rparr> 1,
                DoRelease ''a'',
                DoTryAdmit \<lparr>reqWorkloadID = ''b'', reqCPU = 600, reqMemory = 1024, reqGPU = 0\<rparr> 2])
    in used CPU l \<le> 1000 \<and> used Memory l \<le> 4096 \<and> used GPU l \<le> 1 \<and> used CPU l = 600)
   \<and> (\<exists>d. TryAdmit (newLedger 1000 4096 1)
              \<lparr>reqWorkloadID = ''c'', reqCPU = 10, reqMemory = 5000, reqGPU = 0\<rparr> 3
            = (Rejected d, newLedger 1000 4096 1))"
proof -
  let ?ops = "[DoTryAdmit \<lparr>reqWorkloadID = ''a'', reqCPU = 500, reqMemory = 1024, reqGPU = 1\<rparr> 0,
                DoTryAdmit \<lparr>reqWorkloadID = ''b'', reqCPU = 600, reqMemory = 1024, reqGPU = 0\<rparr> 1,
                DoRelease ''a'',
                DoTryAdmit \<lparr>reqWorkloadID = ''b'', reqCPU = 600, reqMemory = 1024, reqGPU = 0\<rparr> 2]"
  let ?l0 = "newLedger 1000 4096 1"
  let ?q = "\<lparr>reqWorkloadID = ''c'', reqCPU = 10, reqMemory = 5000, reqGPU = 0\<rparr>"
  note bound = C3_ledger_bound [of 1000 4096 1 ?ops]
  have mem: "last (trace ?l0 ?ops) \<in> set (trace ?l0 ?ops)"
    by (rule last_in_set) simp
  from bound [THEN conjunct1, THEN bspec, OF mem]
  have b: "used CPU (last (trace ?l0 ?ops)) \<le> 1000"
    "used Memory (last (trace ?l0 ?ops)) \<le> 4096"
    "used GPU (last (trace ?l0 ?ops)) \<le> 1"
    by blast+
  have v: "used CPU (last (trace ?l0 ?ops)) = 600"
    by (simp add: TryAdmit_def Release_def newLedger_def dimensions_def exhausted_def used_def
        mkRecord_def)
  have "allocatable Memory ?l0 < used Memory ?l0 + asked Memory ?q"
    by (simp add: newLedger_def used_def)
  then have "\<exists>d. allocatable d ?l0 < used d ?l0 + asked d ?q" ..
  with bound [THEN conjunct2, THEN spec, THEN spec, THEN spec, of ?l0 ?q 3]
  have "\<exists>d. TryAdmit ?l0 ?q 3 = (Rejected d, ?l0)" by (rule mp)
  with b v show ?thesis by (simp add: Let_def)
qed

subsection \<open>The decision of \<^verbatim>\<open>TryAdmit\<close>\<close>

text \<open>
  Claim C4. \<^verbatim>\<open>TryAdmit\<close> admits exactly when every tracked dimension has room
  for the request beside the live records, and then appends the request's record.
  When it rejects, the reason is the first exhausted dimension in the order CPU,
  memory, GPU, and the ledger is unchanged. For an agent with 1000 CPU millis and
  4Gi of memory, a request of 500 millis and 1Gi is admitted and a following
  request of 600 millis and 1Gi is rejected for CPU.
\<close>

theorem C4_TryAdmit:
  "(fst (TryAdmit l q now) = Admitted \<longleftrightarrow> (\<forall>d. used d l + asked d q \<le> allocatable d l))
   \<and> (fst (TryAdmit l q now) = Admitted \<longrightarrow>
        snd (TryAdmit l q now) = l\<lparr>records := records l @ [mkRecord q now]\<rparr>)
   \<and> (\<forall>d. fst (TryAdmit l q now) = Rejected d \<longrightarrow>
        snd (TryAdmit l q now) = l
        \<and> allocatable d l < used d l + asked d q
        \<and> (\<forall>d'. rank d' < rank d \<longrightarrow> used d' l + asked d' q \<le> allocatable d' l))
   \<and> (let l0 = newLedger 1000 (4 * 2 ^ 30) 0;
           a1 = TryAdmit l0 \<lparr>reqWorkloadID = w1, reqCPU = 500, reqMemory = 2 ^ 30, reqGPU = 0\<rparr> t1;
           a2 = TryAdmit (snd a1) \<lparr>reqWorkloadID = w2, reqCPU = 600, reqMemory = 2 ^ 30, reqGPU = 0\<rparr> t2
       in fst a1 = Admitted \<and> a2 = (Rejected CPU, snd a1))"
proof (intro conjI)
  show "fst (TryAdmit l q now) = Admitted \<longleftrightarrow> (\<forall>d. used d l + asked d q \<le> allocatable d l)"
    by (cases "find (exhausted l q) dimensions")
       (simp_all add: TryAdmit_def flip: find_exhausted_None)
  show "fst (TryAdmit l q now) = Admitted \<longrightarrow>
        snd (TryAdmit l q now) = l\<lparr>records := records l @ [mkRecord q now]\<rparr>"
    by (cases "find (exhausted l q) dimensions") (simp_all add: TryAdmit_def)
  show "\<forall>d. fst (TryAdmit l q now) = Rejected d \<longrightarrow>
        snd (TryAdmit l q now) = l
        \<and> allocatable d l < used d l + asked d q
        \<and> (\<forall>d'. rank d' < rank d \<longrightarrow> used d' l + asked d' q \<le> allocatable d' l)"
  proof (intro allI impI)
    fix d assume r: "fst (TryAdmit l q now) = Rejected d"
    then have f: "find (exhausted l q) dimensions = Some d"
      by (cases "find (exhausted l q) dimensions") (simp_all add: TryAdmit_def)
    then have "exhausted l q d" "\<forall>d'. rank d' < rank d \<longrightarrow> \<not> exhausted l q d'"
      by (simp_all add: find_exhausted_Some)
    with f show "snd (TryAdmit l q now) = l
        \<and> allocatable d l < used d l + asked d q
        \<and> (\<forall>d'. rank d' < rank d \<longrightarrow> used d' l + asked d' q \<le> allocatable d' l)"
      by (simp add: TryAdmit_Rejected exhausted_def not_less)
  qed
  show "let l0 = newLedger 1000 (4 * 2 ^ 30) 0;
           a1 = TryAdmit l0 \<lparr>reqWorkloadID = w1, reqCPU = 500, reqMemory = 2 ^ 30, reqGPU = 0\<rparr> t1;
           a2 = TryAdmit (snd a1) \<lparr>reqWorkloadID = w2, reqCPU = 600, reqMemory = 2 ^ 30, reqGPU = 0\<rparr> t2
       in fst a1 = Admitted \<and> a2 = (Rejected CPU, snd a1)"
    by (simp add: TryAdmit_def newLedger_def dimensions_def exhausted_def used_def mkRecord_def)
qed

text \<open>The scenario's two requests, through the general statement.\<close>

theorem C4_TryAdmit_witness:
  "fst (TryAdmit (newLedger 1000 (4 * 2 ^ 30) 0)
          \<lparr>reqWorkloadID = ''w1'', reqCPU = 500, reqMemory = 2 ^ 30, reqGPU = 0\<rparr> 0) = Admitted
   \<and> (\<forall>d. used d (newLedger 1000 (4 * 2 ^ 30) 0)
            + asked d \<lparr>reqWorkloadID = ''w1'', reqCPU = 500, reqMemory = 2 ^ 30, reqGPU = 0\<rparr>
          \<le> allocatable d (newLedger 1000 (4 * 2 ^ 30) 0))
   \<and> (let l = snd (TryAdmit (newLedger 1000 (4 * 2 ^ 30) 0)
                 \<lparr>reqWorkloadID = ''w1'', reqCPU = 500, reqMemory = 2 ^ 30, reqGPU = 0\<rparr> 0);
           q = \<lparr>reqWorkloadID = ''w2'', reqCPU = 600, reqMemory = 2 ^ 30, reqGPU = 0\<rparr>
       in fst (TryAdmit l q 1) = Rejected CPU
          \<and> snd (TryAdmit l q 1) = l
          \<and> allocatable CPU l < used CPU l + asked CPU q)"
proof -
  let ?l0 = "newLedger 1000 (4 * 2 ^ 30) 0"
  let ?q1 = "\<lparr>reqWorkloadID = ''w1'', reqCPU = 500, reqMemory = 2 ^ 30, reqGPU = 0\<rparr>"
  let ?q2 = "\<lparr>reqWorkloadID = ''w2'', reqCPU = 600, reqMemory = 2 ^ 30, reqGPU = 0\<rparr>"
  let ?l1 = "snd (TryAdmit ?l0 ?q1 0)"
  have a: "fst (TryAdmit ?l0 ?q1 0) = Admitted"
    by (simp add: TryAdmit_def newLedger_def dimensions_def exhausted_def used_def)
  with C4_TryAdmit [of ?l0 ?q1 0, THEN conjunct1]
  have room: "\<forall>d. used d ?l0 + asked d ?q1 \<le> allocatable d ?l0" by (rule iffD1)
  have r: "fst (TryAdmit ?l1 ?q2 1) = Rejected CPU"
    by (simp add: TryAdmit_def newLedger_def dimensions_def exhausted_def used_def mkRecord_def)
  from C4_TryAdmit [of ?l1 ?q2 1, THEN conjunct2, THEN conjunct2, THEN conjunct1, THEN spec, of CPU] r
  have "snd (TryAdmit ?l1 ?q2 1) = ?l1
        \<and> allocatable CPU ?l1 < used CPU ?l1 + asked CPU ?q2
        \<and> (\<forall>d'. rank d' < rank CPU \<longrightarrow> used d' ?l1 + asked d' ?q2 \<le> allocatable d' ?l1)"
    by (rule mp)
  then have "snd (TryAdmit ?l1 ?q2 1) = ?l1" "allocatable CPU ?l1 < used CPU ?l1 + asked CPU ?q2"
    by blast+
  with a room r show ?thesis unfolding Let_def by blast
qed

subsection \<open>\<^verbatim>\<open>Release\<close> is idempotent\<close>

text \<open>
  Claim C5. Releasing a workload twice leaves the ledger as releasing it once
  does; releasing a workload that has no live record changes nothing, and
  \<^verbatim>\<open>Release\<close> has no error to signal. After a release the workload has no
  live record.
\<close>

theorem C5_Release_idempotent:
  "Release (Release l w) w = Release l w
   \<and> (w \<notin> workloadID ` set (records l) \<longrightarrow> Release l w = l)
   \<and> w \<notin> workloadID ` set (records (Release l w))"
proof (intro conjI impI)
  show "Release (Release l w) w = Release l w"
    by (simp add: Release_def)
  show "w \<notin> workloadID ` set (records (Release l w))"
    by (auto simp: Release_def)
  assume "w \<notin> workloadID ` set (records l)"
  then have "filter (\<lambda>r. workloadID r \<noteq> w) (records l) = records l"
    by (auto simp: filter_id_conv)
  then show "Release l w = l" by (simp add: Release_def)
qed

text \<open>A ledger with two records: an unknown workload, and a repeated release.\<close>

theorem C5_Release_idempotent_witness:
  "(let l = \<lparr>allocatableCPU = 1000, allocatableMemory = 4096, allocatableGPU = 0,
             records = [mkRecord \<lparr>reqWorkloadID = ''a'', reqCPU = 100, reqMemory = 10, reqGPU = 0\<rparr> 0,
                        mkRecord \<lparr>reqWorkloadID = ''b'', reqCPU = 200, reqMemory = 20, reqGPU = 0\<rparr> 1]\<rparr>
    in ''zz'' \<notin> workloadID ` set (records l)
       \<and> Release l ''zz'' = l
       \<and> Release (Release l ''a'') ''a'' = Release l ''a''
       \<and> map workloadID (records (Release l ''a'')) = [''b''])"
proof -
  let ?l = "\<lparr>allocatableCPU = 1000, allocatableMemory = 4096, allocatableGPU = 0,
             records = [mkRecord \<lparr>reqWorkloadID = ''a'', reqCPU = 100, reqMemory = 10, reqGPU = 0\<rparr> 0,
                        mkRecord \<lparr>reqWorkloadID = ''b'', reqCPU = 200, reqMemory = 20, reqGPU = 0\<rparr> 1]\<rparr>"
  have u: "''zz'' \<notin> workloadID ` set (records ?l)"
    by (simp add: mkRecord_def)
  with C5_Release_idempotent [of ?l "''zz''", THEN conjunct2, THEN conjunct1]
  have n: "Release ?l ''zz'' = ?l" by (rule mp)
  have i: "Release (Release ?l ''a'') ''a'' = Release ?l ''a''"
    by (rule C5_Release_idempotent [of ?l "''a''", THEN conjunct1])
  have m: "map workloadID (records (Release ?l ''a'')) = [''b'']"
    by (simp add: Release_def mkRecord_def)
  from u n i m show ?thesis unfolding Let_def by blast
qed

section \<open>Properties of the Status Sync Loop\<close>

subsection \<open>Publish times over a run of ticks\<close>







subsection \<open>Staleness of the published status\<close>




section \<open>Properties of the Heartbeat Loop\<close>

subsection \<open>The attempts of a run without failure\<close>



subsection \<open>Cadence without drift\<close>



end
